theory Spec2Isabelle
  imports Main
begin

section \<open>The e3 pytest plugin (\<^verbatim>\<open>src/e3/pytest.py\<close>)\<close>

text \<open>
  The plugin is a set of hooks of the host test runner.  Its own code is modelled
  function by function; what the hooks call outside \<^verbatim>\<open>src/e3/pytest.py\<close> (the file
  system, \<^verbatim>\<open>e3.os.fs\<close>, the coverage engine) is modelled from the specification and
  marked as such.
\<close>

subsection \<open>Errors, coverage data and the file system\<close>

text \<open>The exceptions that the modelled operations raise.\<close>

datatype error =
    FSError             \<comment> \<open>\<^verbatim>\<open>e3.os.fs.mv\<close> could not move its source\<close>
  | DataError           \<comment> \<open>the coverage engine could not parse a data file\<close>
  | FileNotFoundError   \<comment> \<open>\<^verbatim>\<open>os.unlink\<close> of a path that does not exist\<close>
  | ValueError          \<comment> \<open>\<^verbatim>\<open>config.getoption\<close> of an option that is not registered\<close>

text \<open>
  A coverage database maps executed-file identifiers to per-line records (section 3 of
  the specification).  It is kept as an association list with one entry per
  identifier; a line record is the set of executed line numbers.
\<close>

type_synonym lines = "nat set"
type_synonym cov_data = "(string \<times> lines) list"

definition wf_db :: "cov_data \<Rightarrow> bool" where
  "wf_db d = distinct (map fst d)"

text \<open>
  A file is a loadable coverage database or something else.  The file system is the
  map from paths to files together with the paths that the process may not move.
\<close>

datatype fsfile = CovFile cov_data | OtherFile

record fs =
  files :: "string \<rightharpoonup> fsfile"
  locked :: "string set"

subsection \<open>Collaborators of \<^verbatim>\<open>fix_coverage_paths\<close>\<close>

text \<open>Python's \<^verbatim>\<open>str.startswith\<close>.\<close>

definition startswith :: "string \<Rightarrow> string \<Rightarrow> bool" where
  "startswith s p = (take (length p) s = p)"

text \<open>
  Modelled from the spec: \<^verbatim>\<open>coverage.files.PathAliases\<close>, a class of the coverage
  engine, is not part of the sources.  Section 3: a path alias rule is an ordered pair
  (origin-prefix, replacement-prefix), ``applied to a file identifier by replacing the
  origin-prefix with the replacement-prefix when the identifier starts with the
  origin-prefix; identifiers not matching any rule pass through unchanged''.
\<close>

type_synonym aliases = "(string \<times> string) list"

definition PathAliases :: aliases where
  "PathAliases = []"

definition add :: "string \<Rightarrow> string \<Rightarrow> aliases \<Rightarrow> aliases" where
  "add pattern result al = al @ [(pattern, result)]"

fun alias_map :: "aliases \<Rightarrow> string \<Rightarrow> string" where
  "alias_map [] path = path"
| "alias_map ((pattern, result) # al) path =
     (if startswith path pattern then result @ drop (length pattern) path
      else alias_map al path)"

text \<open>
  Modelled from the spec: \<^verbatim>\<open>coverage.sqldata.CoverageData\<close> (\<^verbatim>\<open>read\<close>, \<^verbatim>\<open>update\<close>,
  \<^verbatim>\<open>write\<close>) is not part of the sources.  Section 4.1, steps 3 to 6: the moved-aside
  file is loaded as the old database, the database path is opened as a fresh new
  database, all records of the old database are merged into the new one with the alias
  rule applied to every file identifier, and the new database is persisted.  A file
  that is not a coverage database cannot be parsed (section 7, parse error); a path
  with no file is a database with no records.  Merging a record into a database that
  already has the identifier unites the two line records.
\<close>

definition CoverageData_read :: "string \<Rightarrow> fs \<Rightarrow> error + cov_data" where
  "CoverageData_read path s =
     (case files s path of
        None \<Rightarrow> Inr []
      | Some (CovFile d) \<Rightarrow> Inr d
      | Some OtherFile \<Rightarrow> Inl DataError)"

fun add_lines :: "string \<Rightarrow> lines \<Rightarrow> cov_data \<Rightarrow> cov_data" where
  "add_lines k v [] = [(k, v)]"
| "add_lines k v ((k', v') # d) =
     (if k = k' then (k', v' \<union> v) # d else (k', v') # add_lines k v d)"

definition update :: "cov_data \<Rightarrow> cov_data \<Rightarrow> aliases \<Rightarrow> cov_data" where
  "update new old al = foldl (\<lambda>d (k, v). add_lines (alias_map al k) v d) new old"

definition CoverageData_write :: "string \<Rightarrow> cov_data \<Rightarrow> fs \<Rightarrow> fs" where
  "CoverageData_write path d s = s\<lparr>files := (files s)(path \<mapsto> CovFile d)\<rparr>"

text \<open>
  Modelled from the spec: \<^verbatim>\<open>e3.os.fs.mv\<close> is not part of the sources.  Section 4.1:
  the file is moved to the target path; ``if the source file cannot be moved
  (permissions, missing file), the operation fails and no rewrite occurs''.
\<close>

definition mv :: "string \<Rightarrow> string \<Rightarrow> fs \<Rightarrow> error option \<times> fs" where
  "mv source target s =
     (case files s source of
        None \<Rightarrow> (Some FSError, s)
      | Some f \<Rightarrow>
          if source \<in> locked s then (Some FSError, s)
          else (None, s\<lparr>files := (files s)(source := None, target \<mapsto> f)\<rparr>))"

text \<open>\<^verbatim>\<open>os.unlink\<close>: removes the file, and raises when there is none.\<close>

definition unlink :: "string \<Rightarrow> fs \<Rightarrow> error option \<times> fs" where
  "unlink path s =
     (case files s path of
        None \<Rightarrow> (Some FileNotFoundError, s)
      | Some f \<Rightarrow> (None, s\<lparr>files := (files s)(path := None)\<rparr>))"

text \<open>
  \<^verbatim>\<open>NamedTemporaryFile(dir=...)\<close> creates an empty file under a name that is not in use
  (the name is the parameter \<open>tmp\<close>), and \<^verbatim>\<open>close\<close> deletes that file again.
\<close>

definition NamedTemporaryFile :: "string \<Rightarrow> fs \<Rightarrow> fs" where
  "NamedTemporaryFile tmp s = s\<lparr>files := (files s)(tmp \<mapsto> OtherFile)\<rparr>"

definition close :: "string \<Rightarrow> fs \<Rightarrow> fs" where
  "close tmp s = s\<lparr>files := (files s)(tmp := None)\<rparr>"

text \<open>
  Python's \<^verbatim>\<open>try: body finally: handler\<close>: the handler runs on the state the body
  left, whether the body raised or not; an exception of the handler replaces the one of
  the body.
\<close>

definition try_finally ::
  "(fs \<Rightarrow> error option \<times> fs) \<Rightarrow> (fs \<Rightarrow> error option \<times> fs) \<Rightarrow> fs \<Rightarrow> error option \<times> fs" where
  "try_finally body handler s =
     (case body s of (e1, s1) \<Rightarrow>
        (case handler s1 of (e2, s2) \<Rightarrow>
           (case e2 of Some e \<Rightarrow> (Some e, s2) | None \<Rightarrow> (e1, s2))))"

subsection \<open>\<^verbatim>\<open>fix_coverage_paths\<close>\<close>

text \<open>The body of the \<^verbatim>\<open>try\<close> statement, lines 180 to 186.\<close>

definition rewrite_body :: "aliases \<Rightarrow> string \<Rightarrow> string \<Rightarrow> fs \<Rightarrow> error option \<times> fs" where
  "rewrite_body paths cov_db tmp s =
     (case mv cov_db tmp s of
        (Some e, s1) \<Rightarrow> (Some e, s1)
      | (None, s1) \<Rightarrow>
          (case CoverageData_read tmp s1 of
             Inl e \<Rightarrow> (Some e, s1)
           | Inr old_coverage_data \<Rightarrow>
               (case CoverageData_read cov_db s1 of
                  Inl e \<Rightarrow> (Some e, s1)
                | Inr new_coverage_data \<Rightarrow>
                    (None, CoverageData_write cov_db
                             (update new_coverage_data old_coverage_data paths) s1))))"

definition fix_coverage_paths ::
  "string \<Rightarrow> string \<Rightarrow> string \<Rightarrow> string \<Rightarrow> fs \<Rightarrow> error option \<times> fs" where
  "fix_coverage_paths origin_dir new_dir cov_db tmp s =
     (let paths = add origin_dir new_dir PathAliases;
          s0 = close tmp (NamedTemporaryFile tmp s)
      in try_finally (rewrite_body paths cov_db tmp) (unlink tmp) s0)"

subsection \<open>Module state and \<^verbatim>\<open>require_tool\<close>\<close>

text \<open>
  The module-level variables \<^verbatim>\<open>test_errors\<close> (line 28) and \<^verbatim>\<open>IN_CI_MODE\<close> (line 31).
  Importing the module evaluates both; \<open>environ\<close> is \<^verbatim>\<open>os.environ\<close> at that time.
\<close>

record plugin =
  test_errors :: bool
  IN_CI_MODE :: bool

definition import_plugin :: "(string \<rightharpoonup> string) \<Rightarrow> plugin" where
  "import_plugin environ = \<lparr>test_errors = False, IN_CI_MODE = (''CI'' \<in> dom environ)\<rparr>"

text \<open>\<^verbatim>\<open>pytest.fail\<close> and \<^verbatim>\<open>pytest.skip\<close> raise, each with its message.\<close>

datatype test_exception = Failed string | Skipped string

text \<open>
  The fixture body \<^verbatim>\<open>wrapper\<close> of \<^verbatim>\<open>require_tool\<close>.  \<^verbatim>\<open>e3.os.fs.which\<close> is not part of
  the sources: it is the parameter \<open>which\<close>, the path of the tool found on \<^verbatim>\<open>PATH\<close>,
  or its default, the empty string, when there is none.
\<close>

definition wrapper :: "string \<Rightarrow> plugin \<Rightarrow> (string \<Rightarrow> string) \<Rightarrow> test_exception + unit" where
  "wrapper toolname m which =
     (if which toolname = []
      then (if IN_CI_MODE m then Inl (Failed (toolname @ '' not available''))
            else Inl (Skipped (toolname @ '' not available'')))
      else Inr ())"

definition require_tool :: "string \<Rightarrow> plugin \<Rightarrow> (string \<Rightarrow> string) \<Rightarrow> test_exception + unit" where
  "require_tool toolname = wrapper toolname"

subsection \<open>\<^verbatim>\<open>pytest_sessionfinish\<close>\<close>

definition DEFAULT_EXCLUDE_LIST :: "string list" where
  "DEFAULT_EXCLUDE_LIST =
     [''all: no cover'', ''if TYPE_CHECKING:'', ''@abstractmethod'', ''# os-specific'',
      ''defensive code'', ''assert_never()'']"

text \<open>
  The arguments of the calls \<^verbatim>\<open>cov.exclude(...)\<close> of lines 123 to 143, in the order of
  the calls.
\<close>

definition exclude_patterns :: "string \<Rightarrow> string list" where
  "exclude_patterns os_name =
     DEFAULT_EXCLUDE_LIST
     @ [n @ ''-only''.
          n \<leftarrow> [''darwin'', ''linux'', ''solaris'', ''windows'', ''bsd'', ''aix''],
          n \<noteq> os_name]
     @ (if os_name = ''windows'' then [''if sys.platform != \"win32\":'']
        else [''if sys.platform == \"win32\":'', ''unix: no cover''])
     @ [os_name @ '': no cover'']"

text \<open>
  The options that the hook reads from \<^verbatim>\<open>session.config\<close>: \<^verbatim>\<open>--e3\<close> is a flag and
  \<^verbatim>\<open>--e3-cov-rewrite\<close> takes two arguments or is absent, both registered by the module
  itself; \<^verbatim>\<open>cov_source\<close> is registered by the coverage plugin of the host, so it is
  \<open>None\<close> when that plugin is not there (\<^verbatim>\<open>getoption\<close> then raises \<^verbatim>\<open>ValueError\<close>) and
  otherwise the list of measured sources, empty for a value that counts as false;
  \<^verbatim>\<open>rootpath\<close> is the absolute path of the root directory.
\<close>

record config =
  e3 :: bool
  cov_source :: "string list option"
  e3_cov_rewrite :: "(string \<times> string) option"
  rootpath :: string

record session =
  config :: config
  exitstatus :: int

text \<open>The operator \<^verbatim>\<open>/\<close> of \<^verbatim>\<open>pathlib\<close>, for an absolute path and a relative name.\<close>

definition joinpath :: "string \<Rightarrow> string \<Rightarrow> string" where
  "joinpath p name = (if p = ''/'' then p @ name else p @ ''/'' @ name)"

text \<open>
  \<^verbatim>\<open>str.rstrip()\<close>, on the white space of ASCII (tab to carriage return, the four
  separators and the blank).
\<close>

definition isspace :: "char \<Rightarrow> bool" where
  "isspace c = (let n = (of_char c :: nat) in (9 \<le> n \<and> n \<le> 13) \<or> (28 \<le> n \<and> n \<le> 32))"

definition rstrip :: "string \<Rightarrow> string" where
  "rstrip l = rev (dropWhile isspace (rev l))"

text \<open>
  What the hook reads besides the options: the name of the build operating system
  (\<^verbatim>\<open>Env().build.os.name\<close>), the option \<^verbatim>\<open>run:omit\<close> of the coverage configuration, and
  the lines of the text files under \<^verbatim>\<open>tests/coverage\<close> (no lines for a path that does
  not exist).
\<close>

record cov_env =
  build_os_name :: string
  run_omit :: "string list option"
  text_files :: "string \<rightharpoonup> string list"

text \<open>The calls that the hook makes, in order, with their arguments.\<close>

datatype call =
    FixCoveragePaths string string string
  | Coverage string
  | Exclude string
  | Load
  | HtmlReport "string list"
  | Report "string list" nat
  | XmlReport

definition omit_files :: "config \<Rightarrow> cov_env \<Rightarrow> string list" where
  "omit_files cfg env =
     (let coverage_conf_dir = joinpath (joinpath (rootpath cfg) ''tests'') ''coverage'';
          conf_file = joinpath coverage_conf_dir (''omit-files-'' @ build_os_name env)
      in (case run_omit env of None \<Rightarrow> [] | Some l \<Rightarrow> l)
         @ (case text_files env conf_file of None \<Rightarrow> [] | Some ls \<Rightarrow> map rstrip ls))"

text \<open>Lines 113 to 162: the part of the hook under \<^verbatim>\<open>if cov_source\<close>.\<close>

definition coverage_processing ::
  "config \<Rightarrow> cov_env \<Rightarrow> string \<Rightarrow> fs \<Rightarrow> error option \<times> fs \<times> call list" where
  "coverage_processing cfg env tmp s =
     (let cov_file = joinpath (rootpath cfg) ''.coverage'' in
      case (case e3_cov_rewrite cfg of
              None \<Rightarrow> (None, s, [])
            | Some (origin_dir, new_dir) \<Rightarrow>
                (case fix_coverage_paths origin_dir new_dir cov_file tmp s of
                   (e, s') \<Rightarrow> (e, s', [FixCoveragePaths origin_dir new_dir cov_file])))
      of (Some e, s', cs) \<Rightarrow> (Some e, s', cs)
       | (None, s', cs) \<Rightarrow>
           (None, s',
            cs @ [Coverage cov_file]
               @ map Exclude (exclude_patterns (build_os_name env))
               @ [Load, HtmlReport (omit_files cfg env), Report (omit_files cfg env) 3,
                  XmlReport]))"

record finish =
  raised :: "error option"
  session_after :: session
  fs_after :: fs
  calls :: "call list"

definition pytest_sessionfinish ::
  "plugin \<Rightarrow> session \<Rightarrow> cov_env \<Rightarrow> string \<Rightarrow> fs \<Rightarrow> finish" where
  "pytest_sessionfinish m session env tmp s =
     (if \<not> e3 (config session)
      then \<lparr>raised = None, session_after = session, fs_after = s, calls = []\<rparr>
      else
        let session1 = (if test_errors m then session\<lparr>exitstatus := 3\<rparr> else session) in
        case cov_source (config session) of
          None \<Rightarrow>
            \<lparr>raised = Some ValueError, session_after = session1, fs_after = s, calls = []\<rparr>
        | Some src \<Rightarrow>
            if src \<noteq> []
            then (case coverage_processing (config session) env tmp s of
                    (e, s', cs) \<Rightarrow>
                      \<lparr>raised = e, session_after = session1, fs_after = s', calls = cs\<rparr>)
            else \<lparr>raised = None, session_after = session1, fs_after = s, calls = []\<rparr>)"

subsection \<open>\<^verbatim>\<open>pytest_runtest_makereport\<close>\<close>

text \<open>\<^verbatim>\<open>str.upper\<close> on ASCII letters, and \<^verbatim>\<open>str.replace\<close> for a pattern that is not empty.\<close>

definition toupper :: "char \<Rightarrow> char" where
  "toupper c = (let n = (of_char c :: nat) in if 97 \<le> n \<and> n \<le> 122 then char_of (n - 32) else c)"

definition upper :: "string \<Rightarrow> string" where
  "upper l = map toupper l"

function replace :: "string \<Rightarrow> string \<Rightarrow> string \<Rightarrow> string" where
  "replace old new [] = []"
| "replace old new (c # cs) =
     (if old \<noteq> [] \<and> startswith (c # cs) old
      then new @ replace old new (drop (length old) (c # cs))
      else c # replace old new cs)"
  by pat_completeness auto
termination
  by (relation "measure (\<lambda>(old, new, l). length l)") auto

text \<open>\<^verbatim>\<open>os.path.join\<close> of two components, on POSIX.\<close>

definition os_path_join :: "string \<Rightarrow> string \<Rightarrow> string" where
  "os_path_join a b =
     (if startswith b ''/'' then b
      else if a = [] \<or> last a = CHR ''/'' then a @ b
      else a @ ''/'' @ b)"

record report =
  rep_when :: string
  outcome :: string
  nodeid :: string
  longreprtext :: string

datatype file_op = WriteFile string string | AppendFile string string

text \<open>
  The hook after the \<^verbatim>\<open>yield\<close>: \<open>environ\<close> is \<^verbatim>\<open>os.environ\<close> and \<open>isdir\<close> is
  \<^verbatim>\<open>os.path.isdir\<close> at the time of the call, \<open>rep\<close> is the report of the other hooks.
  The result is the module state and the files written.
\<close>

definition pytest_runtest_makereport ::
  "plugin \<Rightarrow> (string \<rightharpoonup> string) \<Rightarrow> (string \<Rightarrow> bool) \<Rightarrow> report \<Rightarrow> plugin \<times> file_op list" where
  "pytest_runtest_makereport m environ isdir rep =
     (case environ ''RESULTS_DIR'' of
        None \<Rightarrow> (m, [])
      | Some results_dir \<Rightarrow>
          if results_dir = [] \<or> \<not> isdir results_dir then (m, [])
          else if rep_when rep = ''call'' then
            (let outc = upper (outcome rep);
                 test_name = replace ''::'' ''--'' (replace ''/'' ''.'' (nodeid rep))
             in (m,
                 (if longreprtext rep \<noteq> []
                  then [WriteFile (os_path_join results_dir (test_name @ ''.diff''))
                          (longreprtext rep)]
                  else [])
                 @ [AppendFile (os_path_join results_dir ''results'')
                      (test_name @ '':'' @ outc @ [CHR 0x0A])]))
          else if outcome rep = ''failed'' then (m\<lparr>test_errors := True\<rparr>, [])
          else (m, []))"

text \<open>
  A test session as the module sees it: the import, then one call of
  \<^verbatim>\<open>pytest_runtest_makereport\<close> for each report, each with the environment of its time.
  The other functions of the module read the module state and never assign it.
\<close>

type_synonym report_event = "(string \<rightharpoonup> string) \<times> (string \<Rightarrow> bool) \<times> report"

fun run_reports :: "plugin \<Rightarrow> report_event list \<Rightarrow> plugin" where
  "run_reports m [] = m"
| "run_reports m ((environ, isdir, rep) # evs) =
     run_reports (fst (pytest_runtest_makereport m environ isdir rep)) evs"

subsection \<open>Notions used to state the properties\<close>

text \<open>
  The line records of the old database that the alias rules send to the identifier
  \<open>k\<close>.
\<close>

definition landing :: "aliases \<Rightarrow> string \<Rightarrow> cov_data \<Rightarrow> lines set" where
  "landing al k old = {v. \<exists>k'. (k', v) \<in> set old \<and> alias_map al k' = k}"

text \<open>The calls of the hook that are calls of \<^verbatim>\<open>fix_coverage_paths\<close>.\<close>

fun is_FixCoveragePaths :: "call \<Rightarrow> bool" where
  "is_FixCoveragePaths (FixCoveragePaths origin_dir new_dir cov_db) = True"
| "is_FixCoveragePaths c = False"

text \<open>The patterns that the hook hands to \<^verbatim>\<open>cov.exclude\<close>, in the order of the calls.\<close>

fun excluded :: "call list \<Rightarrow> string list" where
  "excluded [] = []"
| "excluded (Exclude regex # cs) = regex # excluded cs"
| "excluded (c # cs) = excluded cs"

text \<open>The database and the file system of the end-to-end scenario of section 8.\<close>

abbreviation (input) db_single :: cov_data where
  "db_single \<equiv> [(''/build/pkg/mod.py'', {1, 2, 3})]"

abbreviation (input) fs_single :: fs where
  "fs_single \<equiv> \<lparr>files = [''/tmp/db'' \<mapsto> CovFile db_single], locked = {}\<rparr>"

text \<open>
  A session with \<^verbatim>\<open>--e3\<close> and a coverage source and without \<^verbatim>\<open>--e3-cov-rewrite\<close>, and
  the environments of a Linux and of a Windows host.
\<close>

abbreviation (input) session_cov :: session where
  "session_cov \<equiv>
     \<lparr>config = \<lparr>e3 = True, cov_source = Some [''e3''], e3_cov_rewrite = None,
                rootpath = ''/repo''\<rparr>,
      exitstatus = 0\<rparr>"

abbreviation (input) env_linux :: cov_env where
  "env_linux \<equiv> \<lparr>build_os_name = ''linux'', run_omit = None, text_files = Map.empty\<rparr>"

abbreviation (input) env_windows :: cov_env where
  "env_windows \<equiv> \<lparr>build_os_name = ''windows'', run_omit = None, text_files = Map.empty\<rparr>"

abbreviation (input) plugin_initial :: plugin where
  "plugin_initial \<equiv> \<lparr>test_errors = False, IN_CI_MODE = False\<rparr>"

abbreviation (input) fs_repo :: fs where
  "fs_repo \<equiv>
     \<lparr>files = [''/repo/.coverage'' \<mapsto> CovFile [(''/build/pkg/mod.py'', {1})]], locked = {}\<rparr>"

section \<open>Properties\<close>

subsection \<open>The three outcomes of \<^verbatim>\<open>fix_coverage_paths\<close>\<close>

text \<open>
  In all three lemmas the temporary name is not in use before the call, as
  \<^verbatim>\<open>NamedTemporaryFile\<close> guarantees.  A database that can be moved and parsed is
  replaced by the merge of its records into an empty database.
\<close>

lemma fix_coverage_paths_valid:
  assumes "files s cov_db = Some (CovFile d)" "cov_db \<notin> locked s" "files s tmp = None"
  shows "fix_coverage_paths origin_dir new_dir cov_db tmp s =
           (None, s\<lparr>files := (files s)(cov_db \<mapsto> CovFile (update [] d [(origin_dir, new_dir)]))\<rparr>)"
proof -
  from assms have ne: "tmp \<noteq> cov_db" by auto
  have "(files s)(tmp := None) = files s" using assms(3) by (simp add: fun_upd_idem)
  then show ?thesis
    using assms ne
    by (simp add: fix_coverage_paths_def try_finally_def rewrite_body_def mv_def unlink_def
        CoverageData_read_def CoverageData_write_def NamedTemporaryFile_def close_def add_def
        PathAliases_def fun_upd_twist)
qed

text \<open>A file that cannot be parsed is lost: the move has happened, the copy is deleted.\<close>

lemma fix_coverage_paths_corrupt:
  assumes "files s cov_db = Some OtherFile" "cov_db \<notin> locked s" "files s tmp = None"
  shows "fix_coverage_paths origin_dir new_dir cov_db tmp s =
           (Some DataError, s\<lparr>files := (files s)(cov_db := None)\<rparr>)"
proof -
  from assms have ne: "tmp \<noteq> cov_db" by auto
  have "(files s)(tmp := None) = files s" using assms(3) by (simp add: fun_upd_idem)
  then show ?thesis
    using assms ne
    by (simp add: fix_coverage_paths_def try_finally_def rewrite_body_def mv_def unlink_def
        CoverageData_read_def CoverageData_write_def NamedTemporaryFile_def close_def add_def
        PathAliases_def fun_upd_idem)
qed

text \<open>
  When the move fails there is no temporary file, so \<^verbatim>\<open>os.unlink\<close> in the
  \<^verbatim>\<open>finally\<close> clause raises in its turn, and its exception is the one that the
  caller sees.
\<close>

lemma fix_coverage_paths_unmoved:
  assumes "files s cov_db = None \<or> cov_db \<in> locked s" "files s tmp = None"
  shows "fix_coverage_paths origin_dir new_dir cov_db tmp s = (Some FileNotFoundError, s)"
proof -
  have "(files s)(tmp := None) = files s" using assms(2) by (simp add: fun_upd_idem)
  then show ?thesis
    using assms
    by (auto simp add: fix_coverage_paths_def try_finally_def rewrite_body_def mv_def unlink_def
        CoverageData_read_def CoverageData_write_def NamedTemporaryFile_def close_def add_def
        PathAliases_def split: option.splits)
qed

text \<open>
  Whatever the body of the \<^verbatim>\<open>try\<close> statement does, the path given to \<^verbatim>\<open>os.unlink\<close> in
  the \<^verbatim>\<open>finally\<close> clause names no file afterwards.
\<close>

lemma try_finally_unlink:
  "files (snd (try_finally body (unlink tmp) s)) tmp = None"
  by (cases "body s") (simp add: try_finally_def unlink_def split: option.splits)

lemma mv_raises_iff:
  "fst (mv source target s) \<noteq> None \<longleftrightarrow> files s source = None \<or> source \<in> locked s"
  by (simp add: mv_def split: option.splits)

subsection \<open>The merge\<close>

lemma map_of_add_lines:
  "map_of (add_lines k v d) k' =
     (if k' = k then Some (case map_of d k of None \<Rightarrow> v | Some v' \<Rightarrow> v' \<union> v) else map_of d k')"
  by (induction d) auto

lemma landing_Nil: "landing al k [] = {}"
  by (simp add: landing_def)

lemma landing_Cons:
  "landing al k ((k', v) # old) =
     (if alias_map al k' = k then insert v (landing al k old) else landing al k old)"
  by (auto simp: landing_def)

text \<open>
  The record of an identifier after the merge: what the new database had, united with
  every record of the old database that lands on the identifier.
\<close>

lemma map_of_update:
  "map_of (update new old al) k =
     (if landing al k old = {} then map_of new k
      else Some ((case map_of new k of None \<Rightarrow> {} | Some v \<Rightarrow> v) \<union> \<Union>(landing al k old)))"
proof (induction old arbitrary: new)
  case Nil
  show ?case by (simp add: update_def landing_Nil)
next
  case (Cons a old)
  obtain k' v where a: "a = (k', v)" by (cases a)
  have step: "update new (a # old) al = update (add_lines (alias_map al k') v new) old al"
    by (simp add: update_def a)
  have "map_of (update new (a # old) al) k =
          (if landing al k old = {} then map_of (add_lines (alias_map al k') v new) k
           else Some ((case map_of (add_lines (alias_map al k') v new) k of
                         None \<Rightarrow> {} | Some v \<Rightarrow> v) \<union> \<Union>(landing al k old)))"
    by (simp only: step Cons.IH)
  then show ?case
    by (auto simp: a landing_Cons map_of_add_lines split: option.splits)
qed

lemma map_of_update_fresh:
  assumes "(k', v) \<in> set old" "alias_map al k' = k"
  shows "map_of (update [] old al) k = Some (\<Union>(landing al k old))"
proof -
  have "v \<in> landing al k old" using assms by (auto simp: landing_def)
  then have "landing al k old \<noteq> {}" by auto
  then show ?thesis by (simp add: map_of_update)
qed

lemma landing_single:
  assumes "wf_db old" "map_of old k0 = Some v0" "alias_map al k0 = k"
      and "\<forall>k' \<in> fst ` set old. alias_map al k' = k \<longrightarrow> k' = k0"
  shows "landing al k old = {v0}"
proof (rule set_eqI, rule iffI)
  fix v
  assume "v \<in> landing al k old"
  then obtain k' where mem: "(k', v) \<in> set old" and al: "alias_map al k' = k"
    unfolding landing_def by blast
  from mem have "k' \<in> fst ` set old" by (rule rev_image_eqI) simp
  with al assms(4) have "k' = k0" by blast
  with mem have "(k0, v) \<in> set old" by simp
  with assms(1) have "map_of old k0 = Some v"
    unfolding wf_db_def by (rule map_of_is_SomeI)
  with assms(2) have "v = v0" by simp
  then show "v \<in> {v0}" by simp
next
  fix v
  assume "v \<in> {v0}"
  then have "v = v0" by simp
  moreover have "(k0, v0) \<in> set old" using assms(2) by (rule map_of_SomeD)
  ultimately show "v \<in> landing al k old"
    unfolding landing_def using assms(3) by blast
qed

lemma alias_origin:
  "alias_map [(origin_dir, new_dir)] (origin_dir @ rest) = new_dir @ rest"
  by (simp add: startswith_def)

lemma alias_other:
  "\<not> startswith k origin_dir \<Longrightarrow> alias_map [(origin_dir, new_dir)] k = k"
  by simp

subsection \<open>Claims about \<^verbatim>\<open>fix_coverage_paths\<close>\<close>

text \<open>
  C1 (as amended).  Let the database at \<open>cov_db\<close> be loadable and movable, and let it
  record the lines \<open>ls\<close> under the identifier \<open>origin_dir/x\<close>.  Then
  \<^verbatim>\<open>fix_coverage_paths\<close> completes without an error, the database at \<open>cov_db\<close> has
  the identifier \<open>new_dir/x\<close>, and the record under it contains every line of \<open>ls\<close>.
  The record is \<open>ls\<close> itself whenever no other identifier of the input is sent to
  \<open>new_dir/x\<close> by the alias rule.
\<close>

theorem fix_coverage_paths_rewrites_origin:
  assumes "files s cov_db = Some (CovFile d)" "cov_db \<notin> locked s" "files s tmp = None"
      and "wf_db d" "map_of d (origin_dir @ ''/'' @ x) = Some ls"
  shows "\<exists>d' ls'.
           fix_coverage_paths origin_dir new_dir cov_db tmp s =
             (None, s\<lparr>files := (files s)(cov_db \<mapsto> CovFile d')\<rparr>)
         \<and> map_of d' (new_dir @ ''/'' @ x) = Some ls'
         \<and> ls \<subseteq> ls'
         \<and> ((\<forall>k \<in> fst ` set d.
                alias_map [(origin_dir, new_dir)] k = new_dir @ ''/'' @ x
                \<longrightarrow> k = origin_dir @ ''/'' @ x)
              \<longrightarrow> ls' = ls)"
proof -
  let ?al = "[(origin_dir, new_dir)]"
  let ?src = "origin_dir @ ''/'' @ x"
  let ?dst = "new_dir @ ''/'' @ x"
  let ?d' = "update [] d ?al"
  have in0: "(?src, ls) \<in> set d" using assms(5) by (rule map_of_SomeD)
  have al: "alias_map ?al ?src = ?dst" by (rule alias_origin)
  have run: "fix_coverage_paths origin_dir new_dir cov_db tmp s =
               (None, s\<lparr>files := (files s)(cov_db \<mapsto> CovFile ?d')\<rparr>)"
    using assms(1-3) by (rule fix_coverage_paths_valid)
  have look: "map_of ?d' ?dst = Some (\<Union>(landing ?al ?dst d))"
    using in0 al by (rule map_of_update_fresh)
  have "ls \<in> landing ?al ?dst d" using in0 al by (auto simp: landing_def)
  then have sub: "ls \<subseteq> \<Union>(landing ?al ?dst d)" by auto
  have same: "\<Union>(landing ?al ?dst d) = ls"
    if "\<forall>k \<in> fst ` set d. alias_map ?al k = ?dst \<longrightarrow> k = ?src"
    using landing_single [OF assms(4,5) al that] by simp
  from run look sub same show ?thesis by blast
qed

text \<open>
  The end-to-end scenario of section 8: the database \<^verbatim>\<open>{"/build/pkg/mod.py": [1,2,3]}\<close>
  at \<^verbatim>\<open>/tmp/db\<close>, rewritten from \<^verbatim>\<open>/build/pkg\<close> to \<^verbatim>\<open>/src\<close>, has the record
  \<^verbatim>\<open>[1,2,3]\<close> under \<^verbatim>\<open>/src/mod.py\<close>.
\<close>

theorem fix_coverage_paths_rewrites_origin_witness:
  "\<exists>d' ls'.
     fix_coverage_paths ''/build/pkg'' ''/src'' ''/tmp/db'' ''/tmp/tmp0'' fs_single =
       (None, fs_single\<lparr>files := (files fs_single)(''/tmp/db'' \<mapsto> CovFile d')\<rparr>)
     \<and> map_of d' ''/src/mod.py'' = Some ls' \<and> ls' = {1, 2, 3}"
proof -
  have h1: "files fs_single ''/tmp/db'' = Some (CovFile db_single)" by simp
  have h2: "''/tmp/db'' \<notin> locked fs_single" by simp
  have h3: "files fs_single ''/tmp/tmp0'' = None" by simp
  have h4: "wf_db db_single" by (simp add: wf_db_def)
  have h5: "map_of db_single (''/build/pkg'' @ ''/'' @ ''mod.py'') = Some {1, 2, 3}" by simp
  have h6: "\<forall>k \<in> fst ` set db_single.
              alias_map [(''/build/pkg'', ''/src'')] k = ''/src'' @ ''/'' @ ''mod.py''
              \<longrightarrow> k = ''/build/pkg'' @ ''/'' @ ''mod.py''" by simp
  from fix_coverage_paths_rewrites_origin [OF h1 h2 h3 h4 h5, of "''/src''"]
  obtain d' ls' where
    r: "fix_coverage_paths ''/build/pkg'' ''/src'' ''/tmp/db'' ''/tmp/tmp0'' fs_single =
          (None, fs_single\<lparr>files := (files fs_single)(''/tmp/db'' \<mapsto> CovFile d')\<rparr>)"
    and m: "map_of d' (''/src'' @ ''/'' @ ''mod.py'') = Some ls'"
    and i: "(\<forall>k \<in> fst ` set db_single.
              alias_map [(''/build/pkg'', ''/src'')] k = ''/src'' @ ''/'' @ ''mod.py''
              \<longrightarrow> k = ''/build/pkg'' @ ''/'' @ ''mod.py'') \<longrightarrow> ls' = {1, 2, 3}"
    by (elim exE conjE)
  from i h6 have e: "ls' = {1, 2, 3}" by (rule mp)
  from m have m': "map_of d' ''/src/mod.py'' = Some ls'" by simp
  from r m' e show ?thesis by (intro exI conjI)
qed

text \<open>
  The claim as first stated promises the identical record for every database.  A
  database that already has \<^verbatim>\<open>/src/mod.py\<close> refutes it: the input records \<^verbatim>\<open>[1,2,3]\<close>
  under \<^verbatim>\<open>/build/pkg/mod.py\<close> and \<^verbatim>\<open>[4]\<close> under \<^verbatim>\<open>/src/mod.py\<close>, both identifiers
  become \<^verbatim>\<open>/src/mod.py\<close>, and the one output record is \<^verbatim>\<open>[1,2,3,4]\<close>.  No database
  could hold both input records unchanged under the one identifier.
\<close>

theorem fix_coverage_paths_collision_counterexample:
  "fst (fix_coverage_paths ''/build/pkg'' ''/src'' ''/tmp/db'' ''/tmp/tmp0''
          \<lparr>files = [''/tmp/db'' \<mapsto>
                     CovFile [(''/build/pkg/mod.py'', {1, 2, 3}), (''/src/mod.py'', {4})]],
           locked = {}\<rparr>) = None
   \<and> files (snd (fix_coverage_paths ''/build/pkg'' ''/src'' ''/tmp/db'' ''/tmp/tmp0''
          \<lparr>files = [''/tmp/db'' \<mapsto>
                     CovFile [(''/build/pkg/mod.py'', {1, 2, 3}), (''/src/mod.py'', {4})]],
           locked = {}\<rparr>)) ''/tmp/db''
       = Some (CovFile [(''/src/mod.py'', {1, 2, 3, 4})])
   \<and> {1, 2, 3, 4} \<noteq> {1, 2, 3 :: nat}"
proof -
  have "{1, 2, 3} \<union> {4} = {1, 2, 3, 4 :: nat}" by auto
  moreover have "{1, 2, 3, 4} \<noteq> {1, 2, 3 :: nat}" by auto
  ultimately show ?thesis
    by (simp add: fix_coverage_paths_valid update_def startswith_def)
qed

text \<open>
  C2.  The temporary file is gone when \<^verbatim>\<open>fix_coverage_paths\<close> returns, on every
  path.  Once the database file has been moved aside (it exists and can be moved),
  there is no error after a successful rewrite; when the old database cannot be
  parsed, the parse error reaches the caller and the temporary file is deleted all the
  same.
\<close>

theorem fix_coverage_paths_unlinks_tmp:
  "files (snd (fix_coverage_paths origin_dir new_dir cov_db tmp s)) tmp = None
   \<and> (files s cov_db = Some OtherFile \<and> cov_db \<notin> locked s \<and> files s tmp = None \<longrightarrow>
        fst (fix_coverage_paths origin_dir new_dir cov_db tmp s) = Some DataError)
   \<and> (\<forall>d. files s cov_db = Some (CovFile d) \<and> cov_db \<notin> locked s \<and> files s tmp = None \<longrightarrow>
        fst (fix_coverage_paths origin_dir new_dir cov_db tmp s) = None)"
proof (intro conjI impI allI)
  show "files (snd (fix_coverage_paths origin_dir new_dir cov_db tmp s)) tmp = None"
    by (simp add: fix_coverage_paths_def Let_def try_finally_unlink)
next
  assume "files s cov_db = Some OtherFile \<and> cov_db \<notin> locked s \<and> files s tmp = None"
  then show "fst (fix_coverage_paths origin_dir new_dir cov_db tmp s) = Some DataError"
    by (simp add: fix_coverage_paths_corrupt)
next
  fix d
  assume "files s cov_db = Some (CovFile d) \<and> cov_db \<notin> locked s \<and> files s tmp = None"
  then show "fst (fix_coverage_paths origin_dir new_dir cov_db tmp s) = None"
    by (simp add: fix_coverage_paths_valid)
qed

theorem fix_coverage_paths_unlinks_tmp_witness:
  "files (snd (fix_coverage_paths ''/build/pkg'' ''/src'' ''/tmp/db'' ''/tmp/tmp0'' fs_single))
     ''/tmp/tmp0'' = None
   \<and> fst (fix_coverage_paths ''/build/pkg'' ''/src'' ''/tmp/db'' ''/tmp/tmp0'' fs_single) = None
   \<and> files (snd (fix_coverage_paths ''/build/pkg'' ''/src'' ''/tmp/db'' ''/tmp/tmp0''
               \<lparr>files = [''/tmp/db'' \<mapsto> OtherFile], locked = {}\<rparr>)) ''/tmp/tmp0'' = None
   \<and> fst (fix_coverage_paths ''/build/pkg'' ''/src'' ''/tmp/db'' ''/tmp/tmp0''
               \<lparr>files = [''/tmp/db'' \<mapsto> OtherFile], locked = {}\<rparr>) = Some DataError"
  using fix_coverage_paths_unlinks_tmp
          [of "''/build/pkg''" "''/src''" "''/tmp/db''" "''/tmp/tmp0''" fs_single]
        fix_coverage_paths_unlinks_tmp
          [of "''/build/pkg''" "''/src''" "''/tmp/db''" "''/tmp/tmp0''"
              "\<lparr>files = [''/tmp/db'' \<mapsto> OtherFile], locked = {}\<rparr>"]
  by simp

text \<open>
  C3 (as amended).  Let the database at \<open>cov_db\<close> be loadable and movable, and let it
  record the lines \<open>ls\<close> under an identifier \<open>k\<close> that does not start with
  \<open>origin_dir\<close>.  Then \<^verbatim>\<open>fix_coverage_paths\<close> completes without an error, the
  identifier \<open>k\<close> is in the database at \<open>cov_db\<close>, unchanged, and the record under it
  contains every line of \<open>ls\<close>.  The record is \<open>ls\<close> itself whenever no other identifier
  of the input is rewritten to \<open>k\<close>.
\<close>

theorem fix_coverage_paths_pass_through:
  assumes "files s cov_db = Some (CovFile d)" "cov_db \<notin> locked s" "files s tmp = None"
      and "wf_db d" "map_of d k = Some ls" "\<not> startswith k origin_dir"
  shows "\<exists>d' ls'.
           fix_coverage_paths origin_dir new_dir cov_db tmp s =
             (None, s\<lparr>files := (files s)(cov_db \<mapsto> CovFile d')\<rparr>)
         \<and> map_of d' k = Some ls'
         \<and> ls \<subseteq> ls'
         \<and> ((\<forall>k' \<in> fst ` set d. alias_map [(origin_dir, new_dir)] k' = k \<longrightarrow> k' = k)
              \<longrightarrow> ls' = ls)"
proof -
  let ?al = "[(origin_dir, new_dir)]"
  let ?d' = "update [] d ?al"
  have in0: "(k, ls) \<in> set d" using assms(5) by (rule map_of_SomeD)
  have al: "alias_map ?al k = k" using assms(6) by (rule alias_other)
  have run: "fix_coverage_paths origin_dir new_dir cov_db tmp s =
               (None, s\<lparr>files := (files s)(cov_db \<mapsto> CovFile ?d')\<rparr>)"
    using assms(1-3) by (rule fix_coverage_paths_valid)
  have look: "map_of ?d' k = Some (\<Union>(landing ?al k d))"
    using in0 al by (rule map_of_update_fresh)
  have "ls \<in> landing ?al k d" using in0 al by (auto simp: landing_def)
  then have sub: "ls \<subseteq> \<Union>(landing ?al k d)" by auto
  have same: "\<Union>(landing ?al k d) = ls"
    if "\<forall>k' \<in> fst ` set d. alias_map ?al k' = k \<longrightarrow> k' = k"
    using landing_single [OF assms(4,5) al that] by simp
  from run look sub same show ?thesis by blast
qed

theorem fix_coverage_paths_pass_through_witness:
  "\<exists>d' ls'.
     fix_coverage_paths ''/build/pkg'' ''/src'' ''/tmp/db'' ''/tmp/tmp0''
        \<lparr>files = [''/tmp/db'' \<mapsto>
                   CovFile [(''/build/pkg/mod.py'', {1, 2, 3}), (''/opt/lib.py'', {5})]],
         locked = {}\<rparr> =
       (None, \<lparr>files = [''/tmp/db'' \<mapsto> CovFile d'], locked = {}\<rparr>)
     \<and> map_of d' ''/opt/lib.py'' = Some ls' \<and> ls' = {5}"
proof -
  let ?d = "[(''/build/pkg/mod.py'', {1, 2, 3}), (''/opt/lib.py'', {5::nat})]"
  let ?s = "\<lparr>files = [''/tmp/db'' \<mapsto> CovFile ?d], locked = {}\<rparr>"
  have h1: "files ?s ''/tmp/db'' = Some (CovFile ?d)" by simp
  have h2: "''/tmp/db'' \<notin> locked ?s" by simp
  have h3: "files ?s ''/tmp/tmp0'' = None" by simp
  have h4: "wf_db ?d" by (simp add: wf_db_def)
  have h5: "map_of ?d ''/opt/lib.py'' = Some {5}" by simp
  have h6: "\<not> startswith ''/opt/lib.py'' ''/build/pkg''" by (simp add: startswith_def)
  have h7: "\<forall>k' \<in> fst ` set ?d.
              alias_map [(''/build/pkg'', ''/src'')] k' = ''/opt/lib.py'' \<longrightarrow> k' = ''/opt/lib.py''"
    by (simp add: startswith_def)
  from fix_coverage_paths_pass_through [OF h1 h2 h3 h4 h5 h6, of "''/src''"]
  obtain d' ls' where
    r: "fix_coverage_paths ''/build/pkg'' ''/src'' ''/tmp/db'' ''/tmp/tmp0'' ?s =
          (None, ?s\<lparr>files := (files ?s)(''/tmp/db'' \<mapsto> CovFile d')\<rparr>)"
    and m: "map_of d' ''/opt/lib.py'' = Some ls'"
    and i: "(\<forall>k' \<in> fst ` set ?d.
              alias_map [(''/build/pkg'', ''/src'')] k' = ''/opt/lib.py'' \<longrightarrow> k' = ''/opt/lib.py'')
            \<longrightarrow> ls' = {5}"
    by (elim exE conjE)
  from i h7 have e: "ls' = {5}" by (rule mp)
  from r have r': "fix_coverage_paths ''/build/pkg'' ''/src'' ''/tmp/db'' ''/tmp/tmp0'' ?s =
          (None, \<lparr>files = [''/tmp/db'' \<mapsto> CovFile d'], locked = {}\<rparr>)" by simp
  from r' m e show ?thesis by (intro exI conjI)
qed

text \<open>
  The claim as first stated promises the record intact for every database.  The
  identifier \<^verbatim>\<open>/src/a.py\<close> does not start with \<^verbatim>\<open>/build/pkg\<close> and has the record
  \<^verbatim>\<open>[9]\<close>; the rewritten \<^verbatim>\<open>/build/pkg/a.py\<close>, with the record \<^verbatim>\<open>[7]\<close>, lands on it,
  and the output record under \<^verbatim>\<open>/src/a.py\<close> is \<^verbatim>\<open>[9,7]\<close>.
\<close>

theorem fix_coverage_paths_landing_counterexample:
  "\<not> startswith ''/src/a.py'' ''/build/pkg''
   \<and> fst (fix_coverage_paths ''/build/pkg'' ''/src'' ''/tmp/db'' ''/tmp/tmp0''
          \<lparr>files = [''/tmp/db'' \<mapsto>
                     CovFile [(''/src/a.py'', {9}), (''/build/pkg/a.py'', {7})]],
           locked = {}\<rparr>) = None
   \<and> files (snd (fix_coverage_paths ''/build/pkg'' ''/src'' ''/tmp/db'' ''/tmp/tmp0''
          \<lparr>files = [''/tmp/db'' \<mapsto>
                     CovFile [(''/src/a.py'', {9}), (''/build/pkg/a.py'', {7})]],
           locked = {}\<rparr>)) ''/tmp/db''
       = Some (CovFile [(''/src/a.py'', {9, 7})])
   \<and> {9, 7} \<noteq> {9 :: nat}"
proof -
  have "{9, 7} \<noteq> {9 :: nat}" by auto
  then show ?thesis
    by (simp add: fix_coverage_paths_valid update_def startswith_def)
qed

text \<open>
  C4.  If the move of the database file raises (the file is missing, or it may not be
  moved), \<^verbatim>\<open>fix_coverage_paths\<close> ends with an error and the file system is as it was
  before the call: nothing at \<open>cov_db\<close> is replaced or modified.
\<close>

theorem fix_coverage_paths_mv_fails:
  assumes "fst (mv cov_db tmp s) \<noteq> None" "files s tmp = None"
  shows "fst (fix_coverage_paths origin_dir new_dir cov_db tmp s) \<noteq> None
       \<and> snd (fix_coverage_paths origin_dir new_dir cov_db tmp s) = s"
proof -
  from assms(1) have "files s cov_db = None \<or> cov_db \<in> locked s"
    by (simp only: mv_raises_iff)
  then show ?thesis using assms(2) by (simp add: fix_coverage_paths_unmoved)
qed

theorem fix_coverage_paths_mv_fails_witness:
  "fst (mv ''/tmp/db'' ''/tmp/tmp0'' \<lparr>files = Map.empty, locked = {}\<rparr>) \<noteq> None
   \<and> fst (fix_coverage_paths ''/build/pkg'' ''/src'' ''/tmp/db'' ''/tmp/tmp0''
            \<lparr>files = Map.empty, locked = {}\<rparr>) \<noteq> None
   \<and> snd (fix_coverage_paths ''/build/pkg'' ''/src'' ''/tmp/db'' ''/tmp/tmp0''
            \<lparr>files = Map.empty, locked = {}\<rparr>) = \<lparr>files = Map.empty, locked = {}\<rparr>
   \<and> fst (mv ''/tmp/db'' ''/tmp/tmp0''
            \<lparr>files = [''/tmp/db'' \<mapsto> CovFile db_single], locked = {''/tmp/db''}\<rparr>) \<noteq> None
   \<and> snd (fix_coverage_paths ''/build/pkg'' ''/src'' ''/tmp/db'' ''/tmp/tmp0''
            \<lparr>files = [''/tmp/db'' \<mapsto> CovFile db_single], locked = {''/tmp/db''}\<rparr>)
       = \<lparr>files = [''/tmp/db'' \<mapsto> CovFile db_single], locked = {''/tmp/db''}\<rparr>"
proof -
  let ?e = "\<lparr>files = Map.empty, locked = {}\<rparr> :: fs"
  let ?l = "\<lparr>files = [''/tmp/db'' \<mapsto> CovFile db_single], locked = {''/tmp/db''}\<rparr>"
  have a1: "fst (mv ''/tmp/db'' ''/tmp/tmp0'' ?e) \<noteq> None" by (simp add: mv_def)
  have a2: "files ?e ''/tmp/tmp0'' = None" by simp
  have b1: "fst (mv ''/tmp/db'' ''/tmp/tmp0'' ?l) \<noteq> None" by (simp add: mv_def)
  have b2: "files ?l ''/tmp/tmp0'' = None" by simp
  from a1 b1 fix_coverage_paths_mv_fails [OF a1 a2, of "''/build/pkg''" "''/src''"]
       fix_coverage_paths_mv_fails [OF b1 b2, of "''/build/pkg''" "''/src''"]
  show ?thesis by blast
qed

subsection \<open>The patterns of \<^verbatim>\<open>exclude_patterns\<close>\<close>

lemma only_in_exclude_patterns:
  assumes "n \<in> set [''darwin'', ''linux'', ''solaris'', ''windows'', ''bsd'', ''aix'']"
  shows "(n @ ''-only'' \<in> set (exclude_patterns os_name)) = (n \<noteq> os_name)"
proof -
  have a: "n @ ''-only'' \<noteq> os_name @ '': no cover''"
  proof
    assume "n @ ''-only'' = os_name @ '': no cover''"
    then have "last (n @ ''-only'') = last (os_name @ '': no cover'')" by simp
    then show False by simp
  qed
  have b: "n @ ''-only'' \<notin> set DEFAULT_EXCLUDE_LIST"
    using assms by (auto simp: DEFAULT_EXCLUDE_LIST_def)
  have c: "n @ ''-only'' \<noteq> ''if sys.platform != \"win32\":''"
          "n @ ''-only'' \<noteq> ''if sys.platform == \"win32\":''"
          "n @ ''-only'' \<noteq> ''unix: no cover''"
    using assms by auto
  have d: "(n @ ''-only'' \<in> set [m @ ''-only''.
              m \<leftarrow> [''darwin'', ''linux'', ''solaris'', ''windows'', ''bsd'', ''aix''],
              m \<noteq> os_name]) = (n \<noteq> os_name)"
    using assms by auto
  have e: "n @ ''-only'' \<notin> set (if os_name = ''windows'' then [''if sys.platform != \"win32\":'']
        else [''if sys.platform == \"win32\":'', ''unix: no cover''])"
    using c by simp
  have f: "n @ ''-only'' \<notin> set [os_name @ '': no cover'']"
    using a by simp
  show ?thesis
    unfolding exclude_patterns_def set_append Un_iff using b d e f by blast
qed

lemma win32_in_exclude_patterns:
  "(os_name = ''windows'' \<longrightarrow>
      ''if sys.platform != \"win32\":'' \<in> set (exclude_patterns os_name)
    \<and> ''unix: no cover'' \<notin> set (exclude_patterns os_name)
    \<and> ''if sys.platform == \"win32\":'' \<notin> set (exclude_patterns os_name))
 \<and> (os_name \<noteq> ''windows'' \<longrightarrow>
      ''if sys.platform == \"win32\":'' \<in> set (exclude_patterns os_name)
    \<and> ''unix: no cover'' \<in> set (exclude_patterns os_name)
    \<and> ''if sys.platform != \"win32\":'' \<notin> set (exclude_patterns os_name))"
proof -
  have a: "''if sys.platform != \"win32\":'' \<noteq> os_name @ '': no cover''"
  proof
    assume "''if sys.platform != \"win32\":'' = os_name @ '': no cover''"
    then have "last ''if sys.platform != \"win32\":'' = last (os_name @ '': no cover'')"
      by simp
    then show False by simp
  qed
  show ?thesis
    using a by (auto simp: exclude_patterns_def DEFAULT_EXCLUDE_LIST_def)
qed

subsection \<open>The calls of \<^verbatim>\<open>pytest_sessionfinish\<close>\<close>

lemma excluded_append: "excluded (cs @ ds) = excluded cs @ excluded ds"
  by (induction cs rule: excluded.induct) simp_all

lemma excluded_map_Exclude: "excluded (map Exclude l) = l"
  by (induction l) simp_all

lemma filter_Exclude: "filter is_FixCoveragePaths (map Exclude l) = []"
  by (induction l) simp_all

lemma coverage_processing_calls:
  "filter is_FixCoveragePaths (case coverage_processing cfg env tmp s of (e, s', cs) \<Rightarrow> cs) =
     (case e3_cov_rewrite cfg of
        None \<Rightarrow> []
      | Some (origin_dir, new_dir) \<Rightarrow>
          [FixCoveragePaths origin_dir new_dir (joinpath (rootpath cfg) ''.coverage'')])"
  by (auto simp: coverage_processing_def Let_def filter_Exclude
      split: option.splits prod.splits)

lemma coverage_processing_effect:
  "(case coverage_processing cfg env tmp s of (e, s', cs) \<Rightarrow> (e, s')) =
     (case e3_cov_rewrite cfg of
        None \<Rightarrow> (None, s)
      | Some (origin_dir, new_dir) \<Rightarrow>
          fix_coverage_paths origin_dir new_dir (joinpath (rootpath cfg) ''.coverage'') tmp s)"
  by (auto simp: coverage_processing_def Let_def split: option.splits prod.splits)

text \<open>
  The part under \<^verbatim>\<open>if cov_source\<close> hands all the patterns of \<^verbatim>\<open>exclude_patterns\<close> to
  the coverage engine, in order, unless the rewriter raised before.
\<close>

lemma coverage_processing_excluded:
  assumes "coverage_processing cfg env tmp s = (e, s', cs)"
  shows "excluded cs = (if e = None then exclude_patterns (build_os_name env) else [])"
  using assms
  by (auto simp: coverage_processing_def Let_def excluded_append excluded_map_Exclude
      split: option.splits prod.splits)

lemma pytest_sessionfinish_excluded:
  assumes "e3 (config session)" "cov_source (config session) = Some src" "src \<noteq> []"
      and "raised (pytest_sessionfinish m session env tmp s) = None"
  shows "excluded (calls (pytest_sessionfinish m session env tmp s)) =
           exclude_patterns (build_os_name env)"
proof -
  obtain e s' cs where cp: "coverage_processing (config session) env tmp s = (e, s', cs)"
    by (cases "coverage_processing (config session) env tmp s")
  have r: "pytest_sessionfinish m session env tmp s =
             \<lparr>raised = e,
              session_after = (if test_errors m then session\<lparr>exitstatus := 3\<rparr> else session),
              fs_after = s', calls = cs\<rparr>"
    using assms(1-3) cp by (simp add: pytest_sessionfinish_def Let_def)
  from assms(4) have "e = None" by (simp add: r)
  with coverage_processing_excluded [OF cp] show ?thesis by (simp add: r)
qed

subsection \<open>Claims about \<^verbatim>\<open>pytest_sessionfinish\<close>\<close>

text \<open>
  C5.  When the hook reaches the coverage engine (the option \<^verbatim>\<open>e3\<close> is set, there is
  a coverage source and nothing raised), then, whatever the name of the current
  operating system, the marker \<open>n-only\<close> of each of the six known systems \<open>n\<close> is
  among the patterns that the hook hands to \<^verbatim>\<open>cov.exclude\<close> exactly when \<open>n\<close> is not
  the current system.  For \<^verbatim>\<open>linux\<close> these are \<^verbatim>\<open>darwin-only\<close>, \<^verbatim>\<open>windows-only\<close>,
  \<^verbatim>\<open>solaris-only\<close>, \<^verbatim>\<open>bsd-only\<close> and \<^verbatim>\<open>aix-only\<close>, and never \<^verbatim>\<open>linux-only\<close>.
\<close>

theorem pytest_sessionfinish_excludes_os_only:
  assumes "e3 (config session)" "cov_source (config session) = Some src" "src \<noteq> []"
      and "raised (pytest_sessionfinish m session env tmp s) = None"
  shows "\<forall>n \<in> set [''darwin'', ''linux'', ''solaris'', ''windows'', ''bsd'', ''aix''].
           (n @ ''-only'' \<in> set (excluded (calls (pytest_sessionfinish m session env tmp s))))
           = (n \<noteq> build_os_name env)"
  unfolding pytest_sessionfinish_excluded [OF assms]
  using only_in_exclude_patterns by blast

theorem pytest_sessionfinish_excludes_os_only_witness:
  "raised (pytest_sessionfinish plugin_initial session_cov env_linux ''/repo/tmp0'' fs_repo) = None
   \<and> ''darwin-only'' \<in> set (excluded (calls
        (pytest_sessionfinish plugin_initial session_cov env_linux ''/repo/tmp0'' fs_repo)))
   \<and> ''windows-only'' \<in> set (excluded (calls
        (pytest_sessionfinish plugin_initial session_cov env_linux ''/repo/tmp0'' fs_repo)))
   \<and> ''solaris-only'' \<in> set (excluded (calls
        (pytest_sessionfinish plugin_initial session_cov env_linux ''/repo/tmp0'' fs_repo)))
   \<and> ''bsd-only'' \<in> set (excluded (calls
        (pytest_sessionfinish plugin_initial session_cov env_linux ''/repo/tmp0'' fs_repo)))
   \<and> ''aix-only'' \<in> set (excluded (calls
        (pytest_sessionfinish plugin_initial session_cov env_linux ''/repo/tmp0'' fs_repo)))
   \<and> ''linux-only'' \<notin> set (excluded (calls
        (pytest_sessionfinish plugin_initial session_cov env_linux ''/repo/tmp0'' fs_repo)))"
proof -
  have h1: "e3 (config session_cov)" by simp
  have h2: "cov_source (config session_cov) = Some [''e3'']" by simp
  have h3: "[''e3''] \<noteq> []" by simp
  have h4: "raised (pytest_sessionfinish plugin_initial session_cov env_linux ''/repo/tmp0''
              fs_repo) = None"
    by (simp add: pytest_sessionfinish_def coverage_processing_def)
  from h4 pytest_sessionfinish_excludes_os_only [OF h1 h2 h3 h4] show ?thesis by simp
qed

text \<open>
  C6.  When the hook reaches the coverage engine (the option \<^verbatim>\<open>e3\<close> is set, there is
  a coverage source and nothing raised): on \<^verbatim>\<open>windows\<close> the patterns that the hook
  hands to \<^verbatim>\<open>cov.exclude\<close> include the marker \<^verbatim>\<open>if sys.platform != "win32":\<close> and include
  neither \<^verbatim>\<open>unix: no cover\<close> nor the marker \<^verbatim>\<open>if sys.platform == "win32":\<close>.  On every
  other system it is the reverse: they include \<^verbatim>\<open>if sys.platform == "win32":\<close> and
  \<^verbatim>\<open>unix: no cover\<close>, and not \<^verbatim>\<open>if sys.platform != "win32":\<close>.
\<close>

theorem pytest_sessionfinish_excludes_win32:
  assumes "e3 (config session)" "cov_source (config session) = Some src" "src \<noteq> []"
      and "raised (pytest_sessionfinish m session env tmp s) = None"
  shows
    "(build_os_name env = ''windows'' \<longrightarrow>
        ''if sys.platform != \"win32\":''
          \<in> set (excluded (calls (pytest_sessionfinish m session env tmp s)))
      \<and> ''unix: no cover''
          \<notin> set (excluded (calls (pytest_sessionfinish m session env tmp s)))
      \<and> ''if sys.platform == \"win32\":''
          \<notin> set (excluded (calls (pytest_sessionfinish m session env tmp s))))
   \<and> (build_os_name env \<noteq> ''windows'' \<longrightarrow>
        ''if sys.platform == \"win32\":''
          \<in> set (excluded (calls (pytest_sessionfinish m session env tmp s)))
      \<and> ''unix: no cover''
          \<in> set (excluded (calls (pytest_sessionfinish m session env tmp s)))
      \<and> ''if sys.platform != \"win32\":''
          \<notin> set (excluded (calls (pytest_sessionfinish m session env tmp s))))"
  unfolding pytest_sessionfinish_excluded [OF assms]
  by (rule win32_in_exclude_patterns)

theorem pytest_sessionfinish_excludes_win32_witness:
  "raised (pytest_sessionfinish plugin_initial session_cov env_windows ''/repo/tmp0'' fs_repo)
     = None
   \<and> ''if sys.platform != \"win32\":'' \<in> set (excluded (calls
        (pytest_sessionfinish plugin_initial session_cov env_windows ''/repo/tmp0'' fs_repo)))
   \<and> ''unix: no cover'' \<notin> set (excluded (calls
        (pytest_sessionfinish plugin_initial session_cov env_windows ''/repo/tmp0'' fs_repo)))
   \<and> raised (pytest_sessionfinish plugin_initial session_cov env_linux ''/repo/tmp0'' fs_repo)
     = None
   \<and> ''if sys.platform == \"win32\":'' \<in> set (excluded (calls
        (pytest_sessionfinish plugin_initial session_cov env_linux ''/repo/tmp0'' fs_repo)))
   \<and> ''unix: no cover'' \<in> set (excluded (calls
        (pytest_sessionfinish plugin_initial session_cov env_linux ''/repo/tmp0'' fs_repo)))"
proof -
  have h1: "e3 (config session_cov)" by simp
  have h2: "cov_source (config session_cov) = Some [''e3'']" by simp
  have h3: "[''e3''] \<noteq> []" by simp
  have w: "raised (pytest_sessionfinish plugin_initial session_cov env_windows ''/repo/tmp0''
             fs_repo) = None"
    by (simp add: pytest_sessionfinish_def coverage_processing_def)
  have l: "raised (pytest_sessionfinish plugin_initial session_cov env_linux ''/repo/tmp0''
             fs_repo) = None"
    by (simp add: pytest_sessionfinish_def coverage_processing_def)
  from w l pytest_sessionfinish_excludes_win32 [OF h1 h2 h3 w]
       pytest_sessionfinish_excludes_win32 [OF h1 h2 h3 l]
  show ?thesis by simp
qed

text \<open>
  C7 (as amended).  The hook calls \<^verbatim>\<open>fix_coverage_paths\<close> exactly once, with the two
  directories of the option pair and the path \<^verbatim>\<open>.coverage\<close> under the root directory,
  when the option \<^verbatim>\<open>e3\<close> is set, \<^verbatim>\<open>cov_source\<close> is not empty and the pair is supplied;
  the error and the file system that the hook leaves are then those of that one call.
  In every other case, in particular when the pair is absent, the rewriter is not
  called and the file system is untouched; the hook then raises only when \<^verbatim>\<open>e3\<close> is
  set and the option \<^verbatim>\<open>cov_source\<close> is not registered.
\<close>

theorem pytest_sessionfinish_rewrite_gate:
  "filter is_FixCoveragePaths (calls (pytest_sessionfinish m session env tmp s)) =
     (if e3 (config session) \<and> cov_source (config session) \<noteq> None
         \<and> cov_source (config session) \<noteq> Some [] then
        (case e3_cov_rewrite (config session) of
           None \<Rightarrow> []
         | Some (origin_dir, new_dir) \<Rightarrow>
             [FixCoveragePaths origin_dir new_dir
                (joinpath (rootpath (config session)) ''.coverage'')])
      else [])
   \<and> (raised (pytest_sessionfinish m session env tmp s),
       fs_after (pytest_sessionfinish m session env tmp s)) =
     (if e3 (config session) \<and> cov_source (config session) \<noteq> None
         \<and> cov_source (config session) \<noteq> Some [] then
        (case e3_cov_rewrite (config session) of
           None \<Rightarrow> (None, s)
         | Some (origin_dir, new_dir) \<Rightarrow>
             fix_coverage_paths origin_dir new_dir
               (joinpath (rootpath (config session)) ''.coverage'') tmp s)
      else if e3 (config session) \<and> cov_source (config session) = None
      then (Some ValueError, s)
      else (None, s))"
proof (cases "e3 (config session) \<and> cov_source (config session) \<noteq> None
              \<and> cov_source (config session) \<noteq> Some []")
  case False
  then show ?thesis
    by (auto simp: pytest_sessionfinish_def Let_def split: option.splits)
next
  case True
  then obtain src where src: "cov_source (config session) = Some src" "src \<noteq> []"
    by auto
  obtain e s' cs where cp: "coverage_processing (config session) env tmp s = (e, s', cs)"
    by (cases "coverage_processing (config session) env tmp s")
  have r: "pytest_sessionfinish m session env tmp s =
             \<lparr>raised = e,
              session_after = (if test_errors m then session\<lparr>exitstatus := 3\<rparr> else session),
              fs_after = s', calls = cs\<rparr>"
    using True src cp by (simp add: pytest_sessionfinish_def Let_def)
  from coverage_processing_calls [of "config session" env tmp s]
       coverage_processing_effect [of "config session" env tmp s]
  show ?thesis using True by (simp add: r cp)
qed

theorem pytest_sessionfinish_rewrite_gate_witness:
  "filter is_FixCoveragePaths
     (calls (pytest_sessionfinish \<lparr>test_errors = False, IN_CI_MODE = False\<rparr>
        \<lparr>config = \<lparr>e3 = True, cov_source = Some [''e3''],
                    e3_cov_rewrite = Some (''/build/pkg'', ''/src''), rootpath = ''/repo''\<rparr>,
         exitstatus = 0\<rparr>
        \<lparr>build_os_name = ''linux'', run_omit = None, text_files = Map.empty\<rparr>
        ''/repo/tmp0''
        \<lparr>files = [''/repo/.coverage'' \<mapsto> CovFile [(''/build/pkg/mod.py'', {1})]],
         locked = {}\<rparr>))
     = [FixCoveragePaths ''/build/pkg'' ''/src'' ''/repo/.coverage'']"
  using pytest_sessionfinish_rewrite_gate [of "\<lparr>test_errors = False, IN_CI_MODE = False\<rparr>"
        "\<lparr>config = \<lparr>e3 = True, cov_source = Some [''e3''],
                    e3_cov_rewrite = Some (''/build/pkg'', ''/src''), rootpath = ''/repo''\<rparr>,
         exitstatus = 0\<rparr>"
        "\<lparr>build_os_name = ''linux'', run_omit = None, text_files = Map.empty\<rparr>"
        "''/repo/tmp0''"
        "\<lparr>files = [''/repo/.coverage'' \<mapsto> CovFile [(''/build/pkg/mod.py'', {1})]],
         locked = {}\<rparr>"]
  by (simp add: joinpath_def)

text \<open>
  The claim as first stated lets the option pair alone decide.  With \<^verbatim>\<open>--e3\<close> set and
  the pair supplied, but no coverage source (\<^verbatim>\<open>cov_source\<close> empty), the hook makes no
  call at all.
\<close>

theorem pytest_sessionfinish_pair_counterexample:
  "e3_cov_rewrite \<lparr>e3 = True, cov_source = Some [],
                   e3_cov_rewrite = Some (''/build/pkg'', ''/src''),
                   rootpath = ''/repo''\<rparr> = Some (''/build/pkg'', ''/src'')
   \<and> calls (pytest_sessionfinish \<lparr>test_errors = False, IN_CI_MODE = False\<rparr>
        \<lparr>config = \<lparr>e3 = True, cov_source = Some [],
                    e3_cov_rewrite = Some (''/build/pkg'', ''/src''), rootpath = ''/repo''\<rparr>,
         exitstatus = 0\<rparr>
        \<lparr>build_os_name = ''linux'', run_omit = None, text_files = Map.empty\<rparr>
        ''/repo/tmp0''
        \<lparr>files = [''/repo/.coverage'' \<mapsto> CovFile [(''/build/pkg/mod.py'', {1})]],
         locked = {}\<rparr>) = []"
  by (simp add: pytest_sessionfinish_def)

text \<open>
  C8.  After the hook the exit status of the session is 3 when the option \<^verbatim>\<open>e3\<close> is
  set and \<^verbatim>\<open>test_errors\<close> is true, and it is the exit status of before in every other
  case.  When \<^verbatim>\<open>e3\<close> is not set the hook returns at once: no error, the session and
  the file system as they were, and no call to the coverage engine or the rewriter.
\<close>

theorem pytest_sessionfinish_exitstatus:
  "exitstatus (session_after (pytest_sessionfinish m session env tmp s)) =
     (if e3 (config session) \<and> test_errors m then 3 else exitstatus session)
   \<and> (\<not> e3 (config session) \<longrightarrow>
        pytest_sessionfinish m session env tmp s =
          \<lparr>raised = None, session_after = session, fs_after = s, calls = []\<rparr>)"
  by (simp add: pytest_sessionfinish_def Let_def split: prod.splits option.splits)

theorem pytest_sessionfinish_exitstatus_witness:
  "exitstatus (session_after (pytest_sessionfinish \<lparr>test_errors = True, IN_CI_MODE = False\<rparr>
        \<lparr>config = \<lparr>e3 = True, cov_source = Some [], e3_cov_rewrite = None,
                    rootpath = ''/repo''\<rparr>,
         exitstatus = 1\<rparr>
        \<lparr>build_os_name = ''linux'', run_omit = None, text_files = Map.empty\<rparr>
        ''/repo/tmp0'' \<lparr>files = Map.empty, locked = {}\<rparr>)) = 3
   \<and> pytest_sessionfinish \<lparr>test_errors = True, IN_CI_MODE = False\<rparr>
        \<lparr>config = \<lparr>e3 = False, cov_source = Some [''e3''], e3_cov_rewrite = None,
                    rootpath = ''/repo''\<rparr>,
         exitstatus = 1\<rparr>
        \<lparr>build_os_name = ''linux'', run_omit = None, text_files = Map.empty\<rparr>
        ''/repo/tmp0'' \<lparr>files = Map.empty, locked = {}\<rparr>
     = \<lparr>raised = None,
        session_after =
          \<lparr>config = \<lparr>e3 = False, cov_source = Some [''e3''], e3_cov_rewrite = None,
                      rootpath = ''/repo''\<rparr>,
           exitstatus = 1\<rparr>,
        fs_after = \<lparr>files = Map.empty, locked = {}\<rparr>, calls = []\<rparr>"
  using pytest_sessionfinish_exitstatus [of "\<lparr>test_errors = True, IN_CI_MODE = False\<rparr>"
        "\<lparr>config = \<lparr>e3 = True, cov_source = Some [], e3_cov_rewrite = None,
                    rootpath = ''/repo''\<rparr>,
         exitstatus = 1\<rparr>"
        "\<lparr>build_os_name = ''linux'', run_omit = None, text_files = Map.empty\<rparr>"
        "''/repo/tmp0''" "\<lparr>files = Map.empty, locked = {}\<rparr>"]
      pytest_sessionfinish_exitstatus [of "\<lparr>test_errors = True, IN_CI_MODE = False\<rparr>"
        "\<lparr>config = \<lparr>e3 = False, cov_source = Some [''e3''], e3_cov_rewrite = None,
                    rootpath = ''/repo''\<rparr>,
         exitstatus = 1\<rparr>"
        "\<lparr>build_os_name = ''linux'', run_omit = None, text_files = Map.empty\<rparr>"
        "''/repo/tmp0''" "\<lparr>files = Map.empty, locked = {}\<rparr>"]
  by simp

subsection \<open>Claims about the module state\<close>

lemma makereport_flag:
  "test_errors (fst (pytest_runtest_makereport m environ isdir rep)) =
     (test_errors m \<or>
      ((\<exists>d. environ ''RESULTS_DIR'' = Some d \<and> d \<noteq> [] \<and> isdir d)
       \<and> rep_when rep \<noteq> ''call'' \<and> outcome rep = ''failed''))"
  by (auto simp: pytest_runtest_makereport_def Let_def split: option.splits)

lemma run_reports_flag:
  "test_errors (run_reports m evs) =
     (test_errors m \<or>
      (\<exists>(environ, isdir, rep) \<in> set evs.
         (\<exists>d. environ ''RESULTS_DIR'' = Some d \<and> d \<noteq> [] \<and> isdir d)
         \<and> rep_when rep \<noteq> ''call'' \<and> outcome rep = ''failed''))"
proof (induction evs arbitrary: m)
  case Nil
  show ?case by simp
next
  case (Cons ev evs)
  obtain environ isdir rep where ev: "ev = (environ, isdir, rep)" by (cases ev)
  show ?case
    unfolding ev run_reports.simps Cons.IH makereport_flag by auto
qed

text \<open>
  C9.  The flag \<^verbatim>\<open>test_errors\<close> is false after the import.  A call of
  \<^verbatim>\<open>pytest_runtest_makereport\<close> leaves it true if it was true, and makes it true exactly
  when \<^verbatim>\<open>RESULTS_DIR\<close> names an existing directory, the phase of the report is not
  \<^verbatim>\<open>call\<close> and its outcome is \<^verbatim>\<open>failed\<close>.  So after any sequence of reports the flag is
  true exactly when one of them was such a report: a failure in the phase \<^verbatim>\<open>call\<close>
  never sets it, a report made without a results directory never sets it, and nothing
  sets it back to false.
\<close>

theorem test_errors_set_by_makereport:
  "\<not> test_errors (import_plugin initial)
   \<and> test_errors (fst (pytest_runtest_makereport m environ isdir rep)) =
       (test_errors m \<or>
        ((\<exists>d. environ ''RESULTS_DIR'' = Some d \<and> d \<noteq> [] \<and> isdir d)
         \<and> rep_when rep \<noteq> ''call'' \<and> outcome rep = ''failed''))
   \<and> test_errors (run_reports (import_plugin initial) evs) =
       (\<exists>(environ, isdir, rep) \<in> set evs.
          (\<exists>d. environ ''RESULTS_DIR'' = Some d \<and> d \<noteq> [] \<and> isdir d)
          \<and> rep_when rep \<noteq> ''call'' \<and> outcome rep = ''failed'')"
proof -
  have a: "\<not> test_errors (import_plugin initial)" by (simp add: import_plugin_def)
  then show ?thesis
    by (simp only: makereport_flag run_reports_flag simp_thms)
qed

theorem test_errors_set_by_makereport_witness:
  "test_errors (run_reports (import_plugin Map.empty)
      [([''RESULTS_DIR'' \<mapsto> ''/res''], (\<lambda>p. p = ''/res''),
        \<lparr>rep_when = ''setup'', outcome = ''failed'', nodeid = ''tests/test_a.py::test_x'',
         longreprtext = ''boom''\<rparr>)])
   \<and> \<not> test_errors (run_reports (import_plugin Map.empty)
      [([''RESULTS_DIR'' \<mapsto> ''/res''], (\<lambda>p. p = ''/res''),
        \<lparr>rep_when = ''call'', outcome = ''failed'', nodeid = ''tests/test_a.py::test_x'',
         longreprtext = ''boom''\<rparr>),
       (Map.empty, (\<lambda>p. p = ''/res''),
        \<lparr>rep_when = ''teardown'', outcome = ''failed'', nodeid = ''tests/test_a.py::test_x'',
         longreprtext = ''boom''\<rparr>)])"
  using test_errors_set_by_makereport [where initial = Map.empty and evs =
      "[([''RESULTS_DIR'' \<mapsto> ''/res''], (\<lambda>p. p = ''/res''),
        \<lparr>rep_when = ''setup'', outcome = ''failed'', nodeid = ''tests/test_a.py::test_x'',
         longreprtext = ''boom''\<rparr>)]"]
    test_errors_set_by_makereport [where initial = Map.empty and evs =
      "[([''RESULTS_DIR'' \<mapsto> ''/res''], (\<lambda>p. p = ''/res''),
        \<lparr>rep_when = ''call'', outcome = ''failed'', nodeid = ''tests/test_a.py::test_x'',
         longreprtext = ''boom''\<rparr>),
       (Map.empty, (\<lambda>p. p = ''/res''),
        \<lparr>rep_when = ''teardown'', outcome = ''failed'', nodeid = ''tests/test_a.py::test_x'',
         longreprtext = ''boom''\<rparr>)]"]
  by simp

text \<open>
  C10.  For every tool name, the fixture of \<^verbatim>\<open>require_tool\<close> fails the test with the
  message \<open>toolname not available\<close> when the tool is not found and \<^verbatim>\<open>CI\<close> was in the
  environment at the import of the module, skips the test with the same message when
  the tool is not found and \<^verbatim>\<open>CI\<close> was absent, and does nothing when the tool is found.
\<close>

theorem require_tool_outcome:
  "(which toolname = [] \<and> ''CI'' \<in> dom environ \<longrightarrow>
      require_tool toolname (import_plugin environ) which =
        Inl (Failed (toolname @ '' not available'')))
   \<and> (which toolname = [] \<and> ''CI'' \<notin> dom environ \<longrightarrow>
      require_tool toolname (import_plugin environ) which =
        Inl (Skipped (toolname @ '' not available'')))
   \<and> (which toolname \<noteq> [] \<longrightarrow>
      require_tool toolname (import_plugin environ) which = Inr ())"
  by (simp add: require_tool_def wrapper_def import_plugin_def)

theorem require_tool_outcome_witness:
  "require_tool ''svn'' (import_plugin [''CI'' \<mapsto> ''true''])
      (\<lambda>t. if t = ''git'' then ''/usr/bin/git'' else []) = Inl (Failed ''svn not available'')
   \<and> require_tool ''svn'' (import_plugin Map.empty)
      (\<lambda>t. if t = ''git'' then ''/usr/bin/git'' else []) = Inl (Skipped ''svn not available'')
   \<and> require_tool ''git'' (import_plugin Map.empty)
      (\<lambda>t. if t = ''git'' then ''/usr/bin/git'' else []) = Inr ()"
  using require_tool_outcome [of "\<lambda>t. if t = ''git'' then ''/usr/bin/git'' else []"
          "''svn''" "[''CI'' \<mapsto> ''true'']"]
        require_tool_outcome [of "\<lambda>t. if t = ''git'' then ''/usr/bin/git'' else []"
          "''svn''" Map.empty]
        require_tool_outcome [of "\<lambda>t. if t = ''git'' then ''/usr/bin/git'' else []"
          "''git''" Map.empty]
  by simp

end
